theory Spec2Isabelle
  imports Complex_Main
begin

section \<open>Python values\<close>

text \<open>
  The values that the decoded body of an HTTP response can hold: \<open>None\<close>, booleans,
  integers, floats, strings, lists and dictionaries. A float is represented by the rational
  number it denotes (the code compares floats with integers and tests them against zero,
  nothing else; infinities and NaN are left out). A dictionary is an association list; the first binding of a key is the
  one that counts. A string is a list of characters with code points below 256.
\<close>

datatype json =
    JNull
  | JBool bool
  | JInt int
  | JFloat rat
  | JStr string
  | JArr "json list"
  | JObj "(string \<times> json) list"

text \<open>
  The exceptions that the modelled code can raise. \<open>RequestException\<close> stands for
  \<open>requests.exceptions.RequestException\<close> and all its subclasses, \<open>OtherError\<close> for
  anything else that escapes from a library call; both carry a text that identifies the
  exception object.
\<close>

datatype exn =
    ValueError
  | TypeError
  | AttributeError
  | UnboundLocalError
  | RequestException string
  | OtherError string

text \<open>\<open>d.get(k, dflt)\<close> and \<open>k in d\<close> on a dictionary.\<close>

definition dict_get :: "(string \<times> json) list \<Rightarrow> string \<Rightarrow> json \<Rightarrow> json" where
  "dict_get d k dflt = (case map_of d k of Some v \<Rightarrow> v | None \<Rightarrow> dflt)"

definition dict_has :: "(string \<times> json) list \<Rightarrow> string \<Rightarrow> bool" where
  "dict_has d k = (map_of d k \<noteq> None)"

text \<open>The keys of a dictionary in insertion order, each once.\<close>

fun dict_keys :: "(string \<times> json) list \<Rightarrow> string list" where
  "dict_keys [] = []"
| "dict_keys ((k, v) # d) = k # filter (\<lambda>k'. k' \<noteq> k) (dict_keys d)"

text \<open>Truth value of an object, as \<open>not x\<close> and \<open>if x\<close> test it.\<close>

fun truthy :: "json \<Rightarrow> bool" where
  "truthy JNull = False"
| "truthy (JBool b) = b"
| "truthy (JInt i) = (i \<noteq> 0)"
| "truthy (JFloat r) = (r \<noteq> 0)"
| "truthy (JStr s) = (s \<noteq> [])"
| "truthy (JArr xs) = (xs \<noteq> [])"
| "truthy (JObj d) = (d \<noteq> [])"

text \<open>
  \<open>for item in v\<close>: a list yields its elements, a string its characters, a dictionary
  its keys; the other values are not iterable.
\<close>

fun py_iter :: "json \<Rightarrow> exn + json list" where
  "py_iter (JArr xs) = Inr xs"
| "py_iter (JStr s) = Inr (map (\<lambda>c. JStr [c]) s)"
| "py_iter (JObj d) = Inr (map JStr (dict_keys d))"
| "py_iter _ = Inl TypeError"

text \<open>\<open>x >= m\<close> for an integer \<open>m\<close>; \<open>bool\<close> is a subclass of \<open>int\<close>.\<close>

fun py_ge :: "json \<Rightarrow> int \<Rightarrow> exn + bool" where
  "py_ge (JInt i) m = Inr (m \<le> i)"
| "py_ge (JBool b) m = Inr (m \<le> (if b then 1 else 0))"
| "py_ge (JFloat r) m = Inr (of_int m \<le> r)"
| "py_ge _ m = Inl TypeError"

subsection \<open>Strings\<close>

text \<open>\<open>sep in s\<close>: \<open>sep\<close> occurs in \<open>s\<close> as a substring.\<close>

fun str_contains :: "string \<Rightarrow> string \<Rightarrow> bool" where
  "str_contains sep [] = (sep = [])"
| "str_contains sep (c # cs) = (take (length sep) (c # cs) = sep \<or> str_contains sep cs)"

text \<open>\<open>s.split(sep)[0]\<close>: the text before the first occurrence of \<open>sep\<close>, all of
  \<open>s\<close> when there is none.\<close>

fun split_head :: "string \<Rightarrow> string \<Rightarrow> string" where
  "split_head sep [] = []"
| "split_head sep (c # cs) =
     (if take (length sep) (c # cs) = sep then [] else c # split_head sep cs)"

text \<open>\<open>s.rstrip('Z')\<close>.\<close>

definition rstrip_Z :: "string \<Rightarrow> string" where
  "rstrip_Z s = rev (dropWhile (\<lambda>c. c = CHR ''Z'') (rev s))"

text \<open>
  \<open>int(s)\<close> for a string: white space around the literal is dropped (the ASCII
  white space of C, and the next-line and no-break spaces), a sign may come first, then
  decimal digits, where a single underscore may stand between two digits.
  A literal of more than 4300 digits is refused (the interpreter's default limit).
  \<open>None\<close> stands for \<open>ValueError\<close>.
\<close>

definition int_isspace :: "char \<Rightarrow> bool" where
  "int_isspace c = (of_char c \<in> {9, 10, 11, 12, 13, 32, 133, 160 :: nat})"

definition py_isdigit :: "char \<Rightarrow> bool" where
  "py_isdigit c = (48 \<le> (of_char c :: nat) \<and> (of_char c :: nat) \<le> 57)"

definition digit_val :: "char \<Rightarrow> int" where
  "digit_val c = int (of_char c) - 48"

fun parse_digits :: "bool \<Rightarrow> int \<Rightarrow> string \<Rightarrow> int option" where
  "parse_digits after_digit acc [] = (if after_digit then Some acc else None)"
| "parse_digits after_digit acc (c # cs) =
     (if py_isdigit c then parse_digits True (10 * acc + digit_val c) cs
      else if c = CHR ''_'' \<and> after_digit then parse_digits False acc cs
      else None)"

definition py_strip :: "string \<Rightarrow> string" where
  "py_strip s = rev (dropWhile int_isspace (rev (dropWhile int_isspace s)))"

definition py_int :: "string \<Rightarrow> int option" where
  "py_int s =
     (let t = py_strip s;
          (neg, body) = (case t of
                           c # cs \<Rightarrow> if c = CHR ''-'' then (True, cs)
                                     else if c = CHR ''+'' then (False, cs)
                                     else (False, t)
                         | [] \<Rightarrow> (False, t))
      in if 4300 < length (filter py_isdigit body) then None
         else map_option (\<lambda>n. if neg then - n else n) (parse_digits False 0 body))"

text \<open>\<open>str(i)\<close> for an integer.\<close>

fun str_of_nat :: "nat \<Rightarrow> string" where
  "str_of_nat n =
     (if n < 10 then [char_of (48 + n)] else str_of_nat (n div 10) @ [char_of (48 + n mod 10)])"

definition str_of_int :: "int \<Rightarrow> string" where
  "str_of_int i = (if i < 0 then CHR ''-'' # str_of_nat (nat (- i)) else str_of_nat (nat i))"

section \<open>Data models (api/models.py)\<close>

text \<open>
  The dataclass \<open>ImageMetadata\<close>. The annotations of the dataclass are not enforced at
  run time, so a field holds whatever value the mapper puts there; \<open>created_date\<close> is a
  \<open>datetime\<close> or \<open>None\<close>. The type \<open>'d\<close> is the type of \<open>datetime\<close> objects.
\<close>

record 'd ImageMetadata =
  content_url :: json
  name :: json
  width :: json
  height :: json
  content_size :: json
  encoding_format :: json
  host_page_url :: json
  thumbnail_url :: json
  created_date :: "'d option"
  content_type :: json
  accentColor :: json
  raw_data :: "(string \<times> json) list"

text \<open>
  The optional field \<open>contentSize\<close>: a string that contains \<open>" B"\<close> is cut there and
  converted with \<open>int\<close>; every other value is kept as it is.
\<close>

definition parse_content_size :: "json \<Rightarrow> exn + json" where
  "parse_content_size v =
     (case v of
        JStr s \<Rightarrow>
          if str_contains '' B'' s
          then (case py_int (split_head '' B'' s) of
                  Some n \<Rightarrow> Inr (JInt n)
                | None \<Rightarrow> Inl ValueError)
          else Inr v
      | _ \<Rightarrow> Inr v)"

text \<open>
  The field \<open>datePublished\<close>, when the key is present: \<open>rstrip\<close> is a method of strings
  only, and the \<open>except\<close> clause catches \<open>ValueError\<close> and \<open>TypeError\<close>, not the
  \<open>AttributeError\<close> of the other values. \<open>fromisoformat\<close> is
  \<open>datetime.fromisoformat\<close> of the standard library, a parameter of the model;
  \<open>None\<close> stands for its \<open>ValueError\<close>.
\<close>

definition parse_created_date :: "(string \<Rightarrow> 'd option) \<Rightarrow> (string \<times> json) list \<Rightarrow> exn + 'd option" where
  "parse_created_date fromisoformat d =
     (case map_of d ''datePublished'' of
        None \<Rightarrow> Inr None
      | Some (JStr s) \<Rightarrow> Inr (fromisoformat (rstrip_Z s))
      | Some _ \<Rightarrow> Inl AttributeError)"

text \<open>\<open>ImageMetadata.from_dict\<close>. Only a dictionary has the method \<open>get\<close>.\<close>

definition from_dict :: "(string \<Rightarrow> 'd option) \<Rightarrow> json \<Rightarrow> exn + 'd ImageMetadata" where
  "from_dict fromisoformat data =
     (case data of
        JObj d \<Rightarrow>
          (case parse_content_size (dict_get d ''contentSize'' JNull) of
             Inl e \<Rightarrow> Inl e
           | Inr csize \<Rightarrow>
               (case parse_created_date fromisoformat d of
                  Inl e \<Rightarrow> Inl e
                | Inr date \<Rightarrow>
                    Inr \<lparr> content_url = dict_get d ''contentUrl'' (JStr ''''),
                          name = dict_get d ''name'' (JStr ''''),
                          width = dict_get d ''width'' (JInt 0),
                          height = dict_get d ''height'' (JInt 0),
                          content_size = csize,
                          encoding_format = dict_get d ''encodingFormat'' JNull,
                          host_page_url = dict_get d ''hostPageUrl'' JNull,
                          thumbnail_url = dict_get d ''thumbnailUrl'' JNull,
                          created_date = date,
                          content_type = dict_get d ''contentType'' JNull,
                          accentColor = dict_get d ''accentColor'' JNull,
                          raw_data = d \<rparr>))
      | _ \<Rightarrow> Inl AttributeError)"

text \<open>\<open>ImageMetadata.meets_size_requirements\<close>; \<open>and\<close> does not evaluate its second
  operand when the first is false.\<close>

definition meets_size_requirements :: "'d ImageMetadata \<Rightarrow> int \<Rightarrow> int \<Rightarrow> exn + bool" where
  "meets_size_requirements img min_width min_height =
     (case py_ge (width img) min_width of
        Inl e \<Rightarrow> Inl e
      | Inr wide \<Rightarrow> if wide then py_ge (height img) min_height else Inr False)"

text \<open>The dataclass \<open>SearchResult\<close>; \<open>next_offset\<close> is \<open>JNull\<close> for \<open>None\<close>.\<close>

record 'd SearchResult =
  query :: string
  images :: "'d ImageMetadata list"
  next_offset :: json
  total_estimated_matches :: json

text \<open>
  The loop of \<open>SearchResult.from_response\<close> over the items: an item whose mapping
  raises is reported with \<open>print\<close> and left out. The first component lists the reported
  exceptions, the second the images.
\<close>

fun map_items :: "(string \<Rightarrow> 'd option) \<Rightarrow> json list \<Rightarrow> exn list \<times> 'd ImageMetadata list" where
  "map_items fromisoformat [] = ([], [])"
| "map_items fromisoformat (item # items) =
     (let (errs, imgs) = map_items fromisoformat items
      in case from_dict fromisoformat item of
           Inr img \<Rightarrow> (errs, img # imgs)
         | Inl e \<Rightarrow> (e # errs, imgs))"

text \<open>\<open>SearchResult.from_response\<close>: the exceptions printed, and the result or the
  exception raised.\<close>

definition from_response ::
  "(string \<Rightarrow> 'd option) \<Rightarrow> string \<Rightarrow> json \<Rightarrow> exn list \<times> (exn + 'd SearchResult)" where
  "from_response fromisoformat q response_data =
     (case response_data of
        JObj d \<Rightarrow>
          (case py_iter (dict_get d ''value'' (JArr [])) of
             Inl e \<Rightarrow> ([], Inl e)
           | Inr items \<Rightarrow>
               (let (errs, imgs) = map_items fromisoformat items
                in (errs,
                    Inr \<lparr> query = q,
                          images = imgs,
                          next_offset = (if dict_has d ''nextOffset''
                                         then dict_get d ''nextOffset'' JNull else JNull),
                          total_estimated_matches = dict_get d ''totalEstimatedMatches'' (JInt 0) \<rparr>)))
      | _ \<Rightarrow> ([], Inl AttributeError))"

text \<open>\<open>SearchResult.filter_by_size\<close>: the comprehension visits the images in order and
  stops at the first comparison that raises.\<close>

fun filter_images :: "'d ImageMetadata list \<Rightarrow> int \<Rightarrow> int \<Rightarrow> exn + 'd ImageMetadata list" where
  "filter_images [] min_width min_height = Inr []"
| "filter_images (img # imgs) min_width min_height =
     (case meets_size_requirements img min_width min_height of
        Inl e \<Rightarrow> Inl e
      | Inr keep \<Rightarrow>
          (case filter_images imgs min_width min_height of
             Inl e \<Rightarrow> Inl e
           | Inr rest \<Rightarrow> Inr (if keep then img # rest else rest)))"

definition filter_by_size :: "'d SearchResult \<Rightarrow> int \<Rightarrow> int \<Rightarrow> exn + 'd SearchResult" where
  "filter_by_size r min_width min_height =
     (case filter_images (images r) min_width min_height of
        Inl e \<Rightarrow> Inl e
      | Inr filtered_images \<Rightarrow>
          Inr \<lparr> query = query r,
                images = filtered_images,
                next_offset = next_offset r,
                total_estimated_matches = total_estimated_matches r \<rparr>)"

section \<open>Error classification (api/exceptions.py)\<close>

datatype error_kind = BingAuthenticationError | BingRateLimitError | BingSearchError

record BingAPIError =
  kind :: error_kind
  message :: string
  status_code :: int
  response :: json

text \<open>\<open>'message' in error_data\<close>: a key test on a dictionary, a substring test on a
  string, a membership test on a list; the other values are not containers.\<close>

fun has_message :: "json \<Rightarrow> exn + bool" where
  "has_message (JObj d) = Inr (dict_has d ''message'')"
| "has_message (JStr s) = Inr (str_contains ''message'' s)"
| "has_message (JArr xs) = Inr (JStr ''message'' \<in> set xs)"
| "has_message _ = Inl TypeError"

text \<open>\<open>error_data['message']\<close>: strings and lists take integer indices only.\<close>

fun get_message :: "json \<Rightarrow> exn + json" where
  "get_message (JObj d) = Inr (dict_get d ''message'' JNull)"
| "get_message _ = Inl TypeError"

text \<open>The message that \<open>handle_bing_error\<close> extracts from the body.\<close>

definition extract_message :: "json \<Rightarrow> exn + json" where
  "extract_message response_data =
     (case response_data of
        JObj d \<Rightarrow>
          if dict_has d ''error''
          then (case has_message (dict_get d ''error'' JNull) of
                  Inl e \<Rightarrow> Inl e
                | Inr found \<Rightarrow>
                    if found then get_message (dict_get d ''error'' JNull)
                    else Inr (JStr ''Unknown Bing API error''))
          else Inr (JStr ''Unknown Bing API error'')
      | _ \<Rightarrow> Inr (JStr ''Unknown Bing API error''))"

text \<open>\<open>prefix + error_message\<close>: a string can be concatenated with a string only.\<close>

definition str_concat :: "string \<Rightarrow> json \<Rightarrow> exn + string" where
  "str_concat prefix v = (case v of JStr s \<Rightarrow> Inr (prefix @ s) | _ \<Rightarrow> Inl TypeError)"

definition handle_bing_error :: "int \<Rightarrow> json \<Rightarrow> exn + BingAPIError" where
  "handle_bing_error code response_data =
     (case extract_message response_data of
        Inl e \<Rightarrow> Inl e
      | Inr error_message \<Rightarrow>
          if code = 401 then
            (case str_concat ''Authentication failed: '' error_message of
               Inl e \<Rightarrow> Inl e
             | Inr m \<Rightarrow> Inr \<lparr> kind = BingAuthenticationError, message = m,
                              status_code = code, response = response_data \<rparr>)
          else if code = 429 then
            (case str_concat ''Rate limit exceeded: '' error_message of
               Inl e \<Rightarrow> Inl e
             | Inr m \<Rightarrow> Inr \<lparr> kind = BingRateLimitError, message = m,
                              status_code = code, response = response_data \<rparr>)
          else
            (case str_concat (''Search error ('' @ str_of_int code @ ''): '') error_message of
               Inl e \<Rightarrow> Inl e
             | Inr m \<Rightarrow> Inr \<lparr> kind = BingSearchError, message = m,
                              status_code = code, response = response_data \<rparr>))"

section \<open>The search client (api/bing_client.py)\<close>

subsection \<open>The world outside the client\<close>

text \<open>
  The client reads the clock, sleeps and sends HTTP requests. The world outside it has a
  state of type \<open>'s\<close>, and the three library calls are functions on that state, which
  the model takes as parameters together with \<open>datetime.fromisoformat\<close>:
  \<^item> \<open>time_time\<close> is \<open>time.time()\<close>, with clock readings taken as real numbers;
  \<open>time_sleep\<close> is \<open>time.sleep(t)\<close>;
  \<^item> \<open>requests_get\<close> is one attempt: \<open>requests.get(endpoint, params, headers,
  timeout=30)\<close>, \<open>raise_for_status()\<close> and \<open>json()\<close>, which give the decoded body
  or raise.
\<close>

record ('s, 'd) env =
  time_time :: "'s \<Rightarrow> real \<times> 's"
  time_sleep :: "real \<Rightarrow> 's \<Rightarrow> 's"
  requests_get :: "string \<Rightarrow> (string \<times> json) list \<Rightarrow> (string \<times> string) list \<Rightarrow> 's \<Rightarrow> (exn + json) \<times> 's"
  fromisoformat :: "string \<Rightarrow> 'd option"

text \<open>The records that the module's logger receives, one constructor for each call of
  the logger in the source, with the values that the message is formatted from.\<close>

datatype log_record =
    RateLimitWaiting real
  | MakingRequest int int
  | RequestFailed int int exn
  | Retrying int
  | AllAttemptsFailed int
  | FoundImages nat string
  | Searching int json
  | NoMoreResults nat
  | RetrievedProgress nat int
  | RetrievedTotal nat string

text \<open>What the client does to the world, in order: sleeps, requests (each with the
  body or the exception that the attempt gave), lines printed by the result mapper, and
  log records.\<close>

datatype event =
    Sleep real
  | HttpGet string "(string \<times> json) list" "(string \<times> string) list" "exn + json"
  | Print exn
  | Log log_record

record 's world =
  outside :: 's
  trace :: "event list"

definition do_time :: "('s, 'd) env \<Rightarrow> 's world \<Rightarrow> real \<times> 's world" where
  "do_time env w = (let (t, s) = time_time env (outside w) in (t, w\<lparr>outside := s\<rparr>))"

definition do_sleep :: "('s, 'd) env \<Rightarrow> real \<Rightarrow> 's world \<Rightarrow> 's world" where
  "do_sleep env t w = w\<lparr>outside := time_sleep env t (outside w), trace := trace w @ [Sleep t]\<rparr>"

definition do_get ::
  "('s, 'd) env \<Rightarrow> string \<Rightarrow> (string \<times> json) list \<Rightarrow> (string \<times> string) list \<Rightarrow> 's world
     \<Rightarrow> (exn + json) \<times> 's world" where
  "do_get env url params headers w =
     (let (res, s) = requests_get env url params headers (outside w)
      in (res, w\<lparr>outside := s, trace := trace w @ [HttpGet url params headers res]\<rparr>))"

definition do_log :: "log_record \<Rightarrow> 's world \<Rightarrow> 's world" where
  "do_log r w = w\<lparr>trace := trace w @ [Log r]\<rparr>"

definition do_print :: "exn list \<Rightarrow> 's world \<Rightarrow> 's world" where
  "do_print errs w = w\<lparr>trace := trace w @ map Print errs\<rparr>"

subsection \<open>The client\<close>

text \<open>The attributes of a \<open>BingImageSearchClient\<close>, as the constructor stores them;
  only \<open>last_request_time\<close> changes after construction.\<close>

record client =
  api_key :: string
  endpoint :: string
  request_delay :: real
  max_retries :: int
  last_request_time :: real

text \<open>\<open>_enforce_rate_limit\<close>.\<close>

definition enforce_rate_limit :: "('s, 'd) env \<Rightarrow> client \<Rightarrow> 's world \<Rightarrow> client \<times> 's world" where
  "enforce_rate_limit env self w =
     (let (current_time, w1) = do_time env w;
          time_since_last_request = current_time - last_request_time self;
          w2 = (if time_since_last_request < request_delay self
                then (let wait_time = request_delay self - time_since_last_request
                      in do_sleep env wait_time (do_log (RateLimitWaiting wait_time) w1))
                else w1);
          (now, w3) = do_time env w2
      in (self\<lparr>last_request_time := now\<rparr>, w3))"

text \<open>\<open>except RequestException\<close> catches the class and its subclasses.\<close>

fun is_request_exception :: "exn \<Rightarrow> bool" where
  "is_request_exception (RequestException e) = True"
| "is_request_exception _ = False"

text \<open>
  \<open>_make_request_with_retries\<close>: the loop \<open>for attempt in range(1, max_retries + 1)\<close>
  from \<open>attempt\<close> on, with the exception recorded so far, and the statements after it.
\<close>

function retry_loop ::
  "('s, 'd) env \<Rightarrow> client \<Rightarrow> (string \<times> json) list \<Rightarrow> (string \<times> string) list \<Rightarrow> int \<Rightarrow> exn option
     \<Rightarrow> 's world \<Rightarrow> (exn + json) \<times> 's world" where
  "retry_loop env self params headers attempt last_exception w =
     (if attempt \<le> max_retries self then
        (case do_get env (endpoint self) params headers
                (do_log (MakingRequest attempt (max_retries self)) w) of
           (Inr body, w1) \<Rightarrow> (Inr body, w1)
         | (Inl e, w1) \<Rightarrow>
             if is_request_exception e then
               retry_loop env self params headers (attempt + 1) (Some e)
                 (let w2 = do_log (RequestFailed attempt (max_retries self) e) w1
                  in if attempt < max_retries self
                     then (let wait_time = 2 ^ nat (attempt - 1)
                           in do_sleep env (of_int wait_time) (do_log (Retrying wait_time) w2))
                     else w2)
             else (Inl e, w1))
      else
        (Inl (case last_exception of
                Some e \<Rightarrow> e
              | None \<Rightarrow> RequestException ''All retry attempts failed''),
         do_log (AllAttemptsFailed (max_retries self)) w))"
  by pat_completeness auto
termination
  by (relation "measure (\<lambda>(env, self, params, headers, attempt, last_exception, w).
                           nat (max_retries self + 1 - attempt))") auto

declare retry_loop.simps [simp del]

definition make_request_with_retries ::
  "('s, 'd) env \<Rightarrow> client \<Rightarrow> (string \<times> json) list \<Rightarrow> (string \<times> string) list \<Rightarrow> 's world
     \<Rightarrow> (exn + json) \<times> 's world" where
  "make_request_with_retries env self params headers w =
     retry_loop env self params headers 1 None w"

text \<open>\<open>d[k] = v\<close> and \<open>d.update(e)\<close> on dictionaries: a new key goes to the end.\<close>

fun dict_set :: "(string \<times> json) list \<Rightarrow> string \<Rightarrow> json \<Rightarrow> (string \<times> json) list" where
  "dict_set [] k v = [(k, v)]"
| "dict_set ((k', v') # d) k v = (if k' = k then (k, v) # d else (k', v') # dict_set d k v)"

fun dict_update :: "(string \<times> json) list \<Rightarrow> (string \<times> json) list \<Rightarrow> (string \<times> json) list" where
  "dict_update d [] = d"
| "dict_update d ((k, v) # e) = dict_update (dict_set d k v) e"

text \<open>
  \<open>search\<close>. The arguments \<open>market\<close>, \<open>safe_search\<close>, \<open>image_type\<close> and \<open>filter\<close> hold
  whatever the caller passes; \<open>kwargs\<close> are the keyword arguments beyond them.
\<close>

definition search ::
  "('s, 'd) env \<Rightarrow> client \<Rightarrow> string \<Rightarrow> int \<Rightarrow> json \<Rightarrow> json \<Rightarrow> json \<Rightarrow> json \<Rightarrow> json
     \<Rightarrow> (string \<times> json) list \<Rightarrow> 's world \<Rightarrow> (exn + 'd SearchResult) \<times> client \<times> 's world" where
  "search env self q count offset market safe_search image_type filter_arg kwargs w =
     (let (self1, w1) = enforce_rate_limit env self w;
          params0 = [(''q'', JStr q), (''count'', JInt (min count 150)), (''offset'', offset),
                     (''mkt'', market), (''safeSearch'', safe_search)];
          params1 = (if truthy image_type then dict_set params0 ''imageType'' image_type else params0);
          params2 = (if truthy filter_arg then dict_set params1 ''$filter'' filter_arg else params1);
          params = dict_update params2 kwargs;
          headers = [(''Ocp-Apim-Subscription-Key'', api_key self1), (''Accept'', ''application/json'')]
      in case make_request_with_retries env self1 params headers w1 of
           (Inl e, w2) \<Rightarrow> (Inl e, self1, w2)
         | (Inr response_data, w2) \<Rightarrow>
             (case from_response (fromisoformat env) q response_data of
                (errs, Inl e) \<Rightarrow> (Inl e, self1, do_print errs w2)
              | (errs, Inr search_result) \<Rightarrow>
                  (Inr search_result, self1,
                   do_log (FoundImages (length (images search_result)) q) (do_print errs w2))))"

text \<open>
  The call \<open>self.search(query, count=current_count, offset=offset, **kwargs)\<close> in
  \<open>search_all\<close>: a keyword in \<open>kwargs\<close> that names \<open>count\<close> or \<open>offset\<close> is a second
  value for that parameter, the keywords that name another parameter of \<open>search\<close> are
  bound to it, and the rest is passed on. (The keyword arguments of \<open>search_all\<close>
  cannot hold \<open>query\<close> or \<open>max_images\<close>: these name its own parameters.)
\<close>

definition call_search ::
  "('s, 'd) env \<Rightarrow> client \<Rightarrow> string \<Rightarrow> int \<Rightarrow> json \<Rightarrow> (string \<times> json) list \<Rightarrow> 's world
     \<Rightarrow> (exn + 'd SearchResult) \<times> client \<times> 's world" where
  "call_search env self q count offset kwargs w =
     (if dict_has kwargs ''count'' \<or> dict_has kwargs ''offset'' then (Inl TypeError, self, w)
      else search env self q count offset
             (dict_get kwargs ''market'' (JStr ''en-US''))
             (dict_get kwargs ''safe_search'' (JStr ''Moderate''))
             (dict_get kwargs ''image_type'' JNull)
             (dict_get kwargs ''filter'' JNull)
             (filter (\<lambda>(k, v). k \<notin> {''market'', ''safe_search'', ''image_type'', ''filter''}) kwargs)
             w)"

text \<open>\<open>xs[:n]\<close>; a negative \<open>n\<close> counts from the end.\<close>

definition slice_to :: "'a list \<Rightarrow> int \<Rightarrow> 'a list" where
  "slice_to xs n = (if 0 \<le> n then take (nat n) xs else take (length xs - nat (- n)) xs)"

text \<open>
  The \<open>while\<close> loop of \<open>search_all\<close>, from a state of its variables \<open>all_images\<close>,
  \<open>offset\<close> and \<open>result\<close> (\<open>None\<close> while the variable is not assigned). It returns the
  values of \<open>all_images\<close> and \<open>result\<close> after the loop.
\<close>

function search_all_loop ::
  "('s, 'd) env \<Rightarrow> string \<Rightarrow> int \<Rightarrow> (string \<times> json) list \<Rightarrow> int \<Rightarrow> 'd ImageMetadata list \<Rightarrow> json
     \<Rightarrow> 'd SearchResult option \<Rightarrow> client \<Rightarrow> 's world
     \<Rightarrow> (exn + 'd ImageMetadata list \<times> 'd SearchResult option) \<times> client \<times> 's world" where
  "search_all_loop env q max_images kwargs count_per_request all_images offset result self w =
     (if int (length all_images) < max_images then
        (case call_search env self q
                (min (max_images - int (length all_images)) count_per_request) offset kwargs
                (do_log (Searching (min (max_images - int (length all_images)) count_per_request) offset) w) of
           (Inl e, self1, w1) \<Rightarrow> (Inl e, self1, w1)
         | (Inr page, self1, w1) \<Rightarrow>
             if \<not> truthy (next_offset page) \<or> images page = [] then
               (Inr (all_images @ images page, Some page), self1,
                do_log (NoMoreResults (length (all_images @ images page))) w1)
             else
               search_all_loop env q max_images kwargs count_per_request
                 (all_images @ images page) (next_offset page) (Some page) self1
                 (do_log (RetrievedProgress (length (all_images @ images page)) max_images) w1))
      else (Inr (all_images, result), self, w))"
  by pat_completeness auto
termination
  by (relation "measure (\<lambda>(env, q, max_images, kwargs, count_per_request, all_images, offset, result, self, w).
                           nat (max_images - int (length all_images)))") auto

declare search_all_loop.simps [simp del]

text \<open>\<open>search_all\<close>. Reading \<open>result\<close> when the loop has not assigned it raises
  \<open>UnboundLocalError\<close>.\<close>

definition search_all ::
  "('s, 'd) env \<Rightarrow> client \<Rightarrow> string \<Rightarrow> int \<Rightarrow> (string \<times> json) list \<Rightarrow> 's world
     \<Rightarrow> (exn + 'd SearchResult) \<times> client \<times> 's world" where
  "search_all env self q max_images kwargs w =
     (case search_all_loop env q max_images kwargs (min 150 max_images) [] (JInt 0) None self w of
        (Inl e, self1, w1) \<Rightarrow> (Inl e, self1, w1)
      | (Inr (all_images, result), self1, w1) \<Rightarrow>
          (case result of
             None \<Rightarrow> (Inl UnboundLocalError, self1, w1)
           | Some page \<Rightarrow>
               (Inr \<lparr> query = q,
                      images = slice_to all_images max_images,
                      next_offset = JNull,
                      total_estimated_matches = total_estimated_matches page \<rparr>,
                self1,
                do_log (RetrievedTotal (length (slice_to all_images max_images)) q) w1)))"

section \<open>Observations on traces\<close>

text \<open>An attempt that failed with a transport error.\<close>

fun is_failure :: "exn + json \<Rightarrow> bool" where
  "is_failure (Inl e) = is_request_exception e"
| "is_failure (Inr body) = False"

text \<open>The sleeps and requests of a trace.\<close>

fun is_net :: "event \<Rightarrow> bool" where
  "is_net (Sleep t) = True"
| "is_net (HttpGet url params headers res) = True"
| "is_net _ = False"

text \<open>
  The retry schedule in the words of the specification: attempts number \<open>k\<close>,
  \<open>k + 1\<close>, ... with the given results, and a sleep of \<open>2 ^ (k - 1)\<close> time units after
  every attempt but the last.
\<close>

fun backoff_schedule ::
  "string \<Rightarrow> (string \<times> json) list \<Rightarrow> (string \<times> string) list \<Rightarrow> nat \<Rightarrow> (exn + json) list \<Rightarrow> event list" where
  "backoff_schedule url params headers k [] = []"
| "backoff_schedule url params headers k [res] = [HttpGet url params headers res]"
| "backoff_schedule url params headers k (res # res' # rest) =
     HttpGet url params headers res # Sleep (2 ^ (k - 1))
       # backoff_schedule url params headers (Suc k) (res' # rest)"

text \<open>The records of a trace that \<open>search_all\<close> and \<open>search\<close> log about pages.\<close>

fun page_log :: "event list \<Rightarrow> log_record list" where
  "page_log [] = []"
| "page_log (Log (Searching n offset) # es) = Searching n offset # page_log es"
| "page_log (Log (FoundImages k q) # es) = FoundImages k q # page_log es"
| "page_log (Log (NoMoreResults n) # es) = NoMoreResults n # page_log es"
| "page_log (Log (RetrievedProgress n m) # es) = RetrievedProgress n m # page_log es"
| "page_log (Log (RetrievedTotal n q) # es) = RetrievedTotal n q # page_log es"
| "page_log (_ # es) = page_log es"

text \<open>The page requests of a trace: the count and the offset of each call of \<open>search\<close>
  that \<open>search_all\<close> announces.\<close>

fun requests_of :: "log_record list \<Rightarrow> (int \<times> json) list" where
  "requests_of [] = []"
| "requests_of (Searching n offset # rs) = (n, offset) # requests_of rs"
| "requests_of (_ # rs) = requests_of rs"

definition page_requests :: "event list \<Rightarrow> (int \<times> json) list" where
  "page_requests es = requests_of (page_log es)"


text \<open>The condition on \<open>contentSize\<close> under which the metadata mapper raises
  \<open>ValueError\<close>: a string with \<open>" B"\<close> whose text before it is no integer literal.\<close>

definition size_malformed :: "(string \<times> json) list \<Rightarrow> bool" where
  "size_malformed d =
     (case map_of d ''contentSize'' of
        Some (JStr s) \<Rightarrow> str_contains '' B'' s \<and> py_int (split_head '' B'' s) = None
      | _ \<Rightarrow> False)"



text \<open>Bodies that supply no message: no object, no key \<open>error\<close>, or an error object
  without the key \<open>message\<close>.\<close>

definition no_api_message :: "json \<Rightarrow> bool" where
  "no_api_message body =
     (case body of
        JObj d \<Rightarrow>
          (case map_of d ''error'' of
             None \<Rightarrow> True
           | Some (JObj e) \<Rightarrow> map_of e ''message'' = None
           | Some _ \<Rightarrow> False)
      | _ \<Rightarrow> True)"

text \<open>The prefix of the message for a status code.\<close>

definition message_prefix :: "int \<Rightarrow> string" where
  "message_prefix code =
     (if code = 401 then ''Authentication failed: ''
      else if code = 429 then ''Rate limit exceeded: ''
      else ''Search error ('' @ str_of_int code @ ''): '')"

section \<open>Sample data\<close>

text \<open>An image record of a given size with no other data, as the metadata mapper
  makes it from the item \<open>{"width": w, "height": h}\<close>.\<close>

definition image_of_size :: "int \<Rightarrow> int \<Rightarrow> unit ImageMetadata" where
  "image_of_size w h =
     \<lparr> content_url = JStr '''', name = JStr '''', width = JInt w, height = JInt h,
       content_size = JNull, encoding_format = JNull, host_page_url = JNull,
       thumbnail_url = JNull, created_date = None, content_type = JNull,
       accentColor = JNull, raw_data = [(''width'', JInt w), (''height'', JInt h)] \<rparr>"

text \<open>A stand-in for \<open>datetime.fromisoformat\<close> that accepts no string.\<close>

definition no_dates :: "string \<Rightarrow> unit option" where
  "no_dates s = None"

text \<open>
  Stand-ins for the world outside the client, whose state counts the requests made so
  far. The clock always reads 0 and sleeping changes nothing.
  \<^item> \<open>flaky_env\<close>: the first two requests time out, the later ones return an empty body.
  \<^item> \<open>paged_env\<close>: every request returns a page of 50 items, with \<open>nextOffset\<close> 50,
  100, 150, ...
  \<^item> \<open>last_page_env\<close>: every request returns a page of 50 items with \<open>nextOffset\<close> 0.
\<close>

definition flaky_env :: "(nat, unit) env" where
  "flaky_env =
     \<lparr> time_time = (\<lambda>n. (0, n)),
       time_sleep = (\<lambda>t n. n),
       requests_get = (\<lambda>url params headers n.
                         (if n < 2 then Inl (RequestException ''timed out'') else Inr (JObj []), Suc n)),
       fromisoformat = no_dates \<rparr>"

definition page_items :: "json list" where
  "page_items = replicate 50 (JObj [(''width'', JInt 640), (''height'', JInt 480)])"

definition paged_env :: "(nat, unit) env" where
  "paged_env =
     \<lparr> time_time = (\<lambda>n. (0, n)),
       time_sleep = (\<lambda>t n. n),
       requests_get = (\<lambda>url params headers n.
                         (Inr (JObj [(''value'', JArr page_items),
                                     (''nextOffset'', JInt (50 * (int n + 1))),
                                     (''totalEstimatedMatches'', JInt 1000)]), Suc n)),
       fromisoformat = no_dates \<rparr>"

definition last_page_env :: "(nat, unit) env" where
  "last_page_env =
     \<lparr> time_time = (\<lambda>n. (0, n)),
       time_sleep = (\<lambda>t n. n),
       requests_get = (\<lambda>url params headers n.
                         (Inr (JObj [(''value'', JArr page_items),
                                     (''nextOffset'', JInt 0),
                                     (''totalEstimatedMatches'', JInt 1000)]), Suc n)),
       fromisoformat = no_dates \<rparr>"

text \<open>A client with three attempts for a request and no delay between requests, and
  the world before its first call.\<close>

definition sample_client :: client where
  "sample_client =
     \<lparr> api_key = ''key'', endpoint = ''https://api.bing.microsoft.com/v7.0/images/search'',
       request_delay = 0, max_retries = 3, last_request_time = 0 \<rparr>"

definition world0 :: "nat world" where
  "world0 = \<lparr> outside = 0, trace = [] \<rparr>"

section \<open>The metadata mapper\<close>

lemma parse_created_date_str:
  assumes "\<forall>v. map_of d ''datePublished'' = Some v \<longrightarrow> (\<exists>s. v = JStr s)"
  shows "parse_created_date f d =
           Inr (case map_of d ''datePublished'' of Some (JStr s) \<Rightarrow> f (rstrip_Z s) | _ \<Rightarrow> None)"
proof (cases "map_of d ''datePublished''")
  case None
  then show ?thesis by (simp add: parse_created_date_def)
next
  case (Some v)
  with assms obtain s where "v = JStr s" by blast
  with Some show ?thesis by (simp add: parse_created_date_def)
qed

lemma parse_content_size_raises:
  "(parse_content_size (dict_get d ''contentSize'' JNull) = Inl e) = (e = ValueError \<and> size_malformed d)"
proof (cases "map_of d ''contentSize''")
  case None
  then show ?thesis by (simp add: parse_content_size_def dict_get_def size_malformed_def)
next
  case (Some v)
  then show ?thesis
    by (cases v) (auto simp: parse_content_size_def dict_get_def size_malformed_def split: option.splits)
qed

lemma parse_content_size_absent:
  "map_of d ''contentSize'' = None \<Longrightarrow> parse_content_size (dict_get d ''contentSize'' JNull) = Inr JNull"
  by (simp add: parse_content_size_def dict_get_def)

text \<open>
  Claim C2, as amended. For every dictionary whose \<open>datePublished\<close>, when present, is a
  string, \<open>from_dict\<close> raises \<open>ValueError\<close> when \<open>contentSize\<close> is a string with
  \<open>" B"\<close> whose text before the first \<open>" B"\<close> is not an integer literal, and returns a
  record otherwise. In the record the absent fields \<open>contentUrl\<close>, \<open>name\<close>, \<open>width\<close>
  and \<open>height\<close> are \<open>""\<close>, \<open>""\<close>, \<open>0\<close> and \<open>0\<close>, every absent optional field is null,
  and \<open>created_date\<close> is what \<open>fromisoformat\<close> makes of the date string without its
  trailing \<open>Z\<close>s, null when it refuses the string.
\<close>

theorem from_dict_outcome:
  assumes date: "\<forall>v. map_of d ''datePublished'' = Some v \<longrightarrow> (\<exists>s. v = JStr s)"
  shows "(size_malformed d \<longrightarrow> from_dict f (JObj d) = Inl ValueError)
       \<and> (\<not> size_malformed d \<longrightarrow> (\<exists>r. from_dict f (JObj d) = Inr r))
       \<and> (\<forall>r. from_dict f (JObj d) = Inr r \<longrightarrow>
            (map_of d ''contentUrl'' = None \<longrightarrow> content_url r = JStr '''')
          \<and> (map_of d ''name'' = None \<longrightarrow> name r = JStr '''')
          \<and> (map_of d ''width'' = None \<longrightarrow> width r = JInt 0)
          \<and> (map_of d ''height'' = None \<longrightarrow> height r = JInt 0)
          \<and> (map_of d ''contentSize'' = None \<longrightarrow> content_size r = JNull)
          \<and> (map_of d ''encodingFormat'' = None \<longrightarrow> encoding_format r = JNull)
          \<and> (map_of d ''hostPageUrl'' = None \<longrightarrow> host_page_url r = JNull)
          \<and> (map_of d ''thumbnailUrl'' = None \<longrightarrow> thumbnail_url r = JNull)
          \<and> (map_of d ''contentType'' = None \<longrightarrow> content_type r = JNull)
          \<and> (map_of d ''accentColor'' = None \<longrightarrow> accentColor r = JNull)
          \<and> (map_of d ''datePublished'' = None \<longrightarrow> created_date r = None)
          \<and> (\<forall>s. map_of d ''datePublished'' = Some (JStr s) \<longrightarrow> created_date r = f (rstrip_Z s)))"
proof -
  note pd = parse_created_date_str [OF date, of f]
  have a: "size_malformed d \<longrightarrow> from_dict f (JObj d) = Inl ValueError"
  proof
    assume "size_malformed d"
    then have "parse_content_size (dict_get d ''contentSize'' JNull) = Inl ValueError"
      by (simp add: parse_content_size_raises)
    then show "from_dict f (JObj d) = Inl ValueError" by (simp add: from_dict_def)
  qed
  have b: "\<not> size_malformed d \<longrightarrow> (\<exists>r. from_dict f (JObj d) = Inr r)"
  proof
    assume n: "\<not> size_malformed d"
    obtain v where "parse_content_size (dict_get d ''contentSize'' JNull) = Inr v"
      using n parse_content_size_raises [of d]
      by (cases "parse_content_size (dict_get d ''contentSize'' JNull)") auto
    then show "\<exists>r. from_dict f (JObj d) = Inr r" by (simp add: from_dict_def pd)
  qed
  have c: "(map_of d ''contentUrl'' = None \<longrightarrow> content_url r = JStr '''')
          \<and> (map_of d ''name'' = None \<longrightarrow> name r = JStr '''')
          \<and> (map_of d ''width'' = None \<longrightarrow> width r = JInt 0)
          \<and> (map_of d ''height'' = None \<longrightarrow> height r = JInt 0)
          \<and> (map_of d ''contentSize'' = None \<longrightarrow> content_size r = JNull)
          \<and> (map_of d ''encodingFormat'' = None \<longrightarrow> encoding_format r = JNull)
          \<and> (map_of d ''hostPageUrl'' = None \<longrightarrow> host_page_url r = JNull)
          \<and> (map_of d ''thumbnailUrl'' = None \<longrightarrow> thumbnail_url r = JNull)
          \<and> (map_of d ''contentType'' = None \<longrightarrow> content_type r = JNull)
          \<and> (map_of d ''accentColor'' = None \<longrightarrow> accentColor r = JNull)
          \<and> (map_of d ''datePublished'' = None \<longrightarrow> created_date r = None)
          \<and> (\<forall>s. map_of d ''datePublished'' = Some (JStr s) \<longrightarrow> created_date r = f (rstrip_Z s))"
    if r: "from_dict f (JObj d) = Inr r" for r
  proof -
    from r obtain v where v: "parse_content_size (dict_get d ''contentSize'' JNull) = Inr v"
      by (cases "parse_content_size (dict_get d ''contentSize'' JNull)") (auto simp: from_dict_def)
    have absent: "map_of d ''contentSize'' = None \<longrightarrow> v = JNull"
      using v parse_content_size_absent [of d] by auto
    from r v have req: "r = \<lparr> content_url = dict_get d ''contentUrl'' (JStr ''''),
                          name = dict_get d ''name'' (JStr ''''),
                          width = dict_get d ''width'' (JInt 0),
                          height = dict_get d ''height'' (JInt 0),
                          content_size = v,
                          encoding_format = dict_get d ''encodingFormat'' JNull,
                          host_page_url = dict_get d ''hostPageUrl'' JNull,
                          thumbnail_url = dict_get d ''thumbnailUrl'' JNull,
                          created_date = (case map_of d ''datePublished'' of
                                            Some (JStr s) \<Rightarrow> f (rstrip_Z s) | _ \<Rightarrow> None),
                          content_type = dict_get d ''contentType'' JNull,
                          accentColor = dict_get d ''accentColor'' JNull,
                          raw_data = d \<rparr>"
      by (simp add: from_dict_def pd)
    show ?thesis using absent by (simp add: req dict_get_def)
  qed
  from a b c show ?thesis by blast
qed

theorem from_dict_outcome_witness:
  "map_of [(''name'', JStr ''cat''), (''datePublished'', JStr ''not-a-date'')] ''datePublished''
     = Some (JStr ''not-a-date'')
   \<and> \<not> size_malformed [(''name'', JStr ''cat''), (''datePublished'', JStr ''not-a-date'')]
   \<and> (\<exists>r. from_dict no_dates (JObj [(''name'', JStr ''cat''), (''datePublished'', JStr ''not-a-date'')]) = Inr r
          \<and> width r = JInt 0 \<and> height r = JInt 0 \<and> content_url r = JStr '''' \<and> created_date r = None)"
proof -
  let ?d = "[(''name'', JStr ''cat''), (''datePublished'', JStr ''not-a-date'')]"
  have h: "\<forall>v. map_of ?d ''datePublished'' = Some v \<longrightarrow> (\<exists>s. v = JStr s)" by simp
  have n: "\<not> size_malformed ?d" by (simp add: size_malformed_def)
  from from_dict_outcome [OF h, of no_dates] n h show ?thesis
    by (auto simp: no_dates_def)
qed

theorem from_dict_raises_counterexample:
  "from_dict no_dates (JObj [(''contentSize'', JStr ''bad B'')]) = Inl ValueError"
  by code_simp

text \<open>
  Claim C3, as amended. Whenever \<open>from_dict\<close> returns a record: if the raw
  \<open>contentSize\<close> is a string that contains \<open>" B"\<close>, the field is the integer that the
  text before the first \<open>" B"\<close> denotes; in every other case the field is the raw value
  unchanged (null when the key is absent), so that a number stays the number and the
  string \<open>"bad"\<close> stays the string \<open>"bad"\<close>: \<open>"102400 B"\<close> gives 102400, 204800
  gives 204800 and \<open>"bad"\<close> gives \<open>"bad"\<close>.
\<close>

theorem content_size_mapping:
  assumes "from_dict f (JObj d) = Inr r"
  shows "(\<forall>s. dict_get d ''contentSize'' JNull = JStr s \<and> str_contains '' B'' s \<longrightarrow>
            (\<exists>n. py_int (split_head '' B'' s) = Some n \<and> content_size r = JInt n))
       \<and> (\<not> (\<exists>s. dict_get d ''contentSize'' JNull = JStr s \<and> str_contains '' B'' s) \<longrightarrow>
            content_size r = dict_get d ''contentSize'' JNull)
       \<and> map_sum id content_size (from_dict no_dates (JObj [(''contentSize'', JStr ''102400 B'')]))
           = Inr (JInt 102400)
       \<and> map_sum id content_size (from_dict no_dates (JObj [(''contentSize'', JInt 204800)]))
           = Inr (JInt 204800)
       \<and> map_sum id content_size (from_dict no_dates (JObj [(''contentSize'', JStr ''bad'')]))
           = Inr (JStr ''bad'')"
proof -
  from assms obtain v where v: "parse_content_size (dict_get d ''contentSize'' JNull) = Inr v"
    and r: "content_size r = v"
    by (auto simp: from_dict_def split: sum.splits)
  have general: "(\<forall>s. dict_get d ''contentSize'' JNull = JStr s \<and> str_contains '' B'' s \<longrightarrow>
            (\<exists>n. py_int (split_head '' B'' s) = Some n \<and> content_size r = JInt n))
       \<and> (\<not> (\<exists>s. dict_get d ''contentSize'' JNull = JStr s \<and> str_contains '' B'' s) \<longrightarrow>
            content_size r = dict_get d ''contentSize'' JNull)"
    using v unfolding r
    by (auto simp: parse_content_size_def split: json.splits option.splits if_splits)
  have p: "py_int ''102400'' = Some 102400" by code_simp
  have examples:
    "map_sum id content_size (from_dict no_dates (JObj [(''contentSize'', JStr ''102400 B'')]))
       = Inr (JInt 102400)"
    "map_sum id content_size (from_dict no_dates (JObj [(''contentSize'', JInt 204800)]))
       = Inr (JInt 204800)"
    "map_sum id content_size (from_dict no_dates (JObj [(''contentSize'', JStr ''bad'')]))
       = Inr (JStr ''bad'')"
    by (simp_all add: from_dict_def parse_content_size_def parse_created_date_def dict_get_def p)
  from general examples show ?thesis by simp
qed

theorem content_size_mapping_witness:
  "(\<exists>r. from_dict no_dates (JObj [(''contentSize'', JStr ''102400 B'')]) = Inr r
        \<and> content_size r = JInt 102400)
   \<and> (\<exists>r. from_dict no_dates (JObj [(''contentSize'', JInt 204800)]) = Inr r
        \<and> content_size r = JInt 204800)
   \<and> (\<exists>r. from_dict no_dates (JObj [(''contentSize'', JStr ''bad'')]) = Inr r
        \<and> content_size r = JStr ''bad'')"
proof -
  let ?d1 = "[(''contentSize'', JStr ''102400 B'')]"
  let ?d2 = "[(''contentSize'', JInt 204800)]"
  let ?d3 = "[(''contentSize'', JStr ''bad'')]"
  have p': "py_int ''102400'' = Some 102400" by code_simp
  then have p: "py_int (split_head '' B'' ''102400 B'') = Some 102400" by simp
  have g1: "dict_get ?d1 ''contentSize'' JNull = JStr ''102400 B''"
    and g2: "dict_get ?d2 ''contentSize'' JNull = JInt 204800"
    and g3: "dict_get ?d3 ''contentSize'' JNull = JStr ''bad''"
    by (simp_all add: dict_get_def)
  have c1: "str_contains '' B'' ''102400 B''" and c3: "\<not> str_contains '' B'' ''bad''"
    by simp_all
  obtain r1 where r1: "from_dict no_dates (JObj ?d1) = Inr r1"
    by (simp add: from_dict_def parse_content_size_def parse_created_date_def g1 p')
  obtain r2 where r2: "from_dict no_dates (JObj ?d2) = Inr r2"
    by (simp add: from_dict_def parse_content_size_def parse_created_date_def g2)
  obtain r3 where r3: "from_dict no_dates (JObj ?d3) = Inr r3"
    by (simp add: from_dict_def parse_content_size_def parse_created_date_def g3)
  from content_size_mapping [OF r1] g1 c1 p have "content_size r1 = JInt 102400" by auto
  moreover from content_size_mapping [OF r2] g2 have "content_size r2 = JInt 204800" by auto
  moreover from content_size_mapping [OF r3] g3 c3 have "content_size r3 = JStr ''bad''" by auto
  ultimately show ?thesis using r1 r2 r3 by simp
qed

theorem content_size_bad_counterexample:
  "map_sum id content_size (from_dict no_dates (JObj [(''contentSize'', JStr ''bad'')])) = Inr (JStr ''bad'')
   \<and> map_sum id content_size (from_dict no_dates (JObj [(''contentSize'', JStr ''bad'')])) \<noteq> Inr JNull"
  by (simp add: from_dict_def parse_content_size_def parse_created_date_def dict_get_def)

section \<open>The result mapper\<close>

lemma meets_size_int:
  "width img = JInt w \<Longrightarrow> height img = JInt h \<Longrightarrow>
   meets_size_requirements img mw mh = Inr (mw \<le> w \<and> mh \<le> h)"
  by (simp add: meets_size_requirements_def)

lemma filter_images_typed:
  assumes "\<forall>img \<in> set imgs. \<exists>w h. width img = JInt w \<and> height img = JInt h"
  shows "filter_images imgs mw mh =
           Inr (filter (\<lambda>img. \<exists>w h. width img = JInt w \<and> height img = JInt h \<and> mw \<le> w \<and> mh \<le> h) imgs)"
  using assms
proof (induction imgs)
  case Nil
  show ?case by simp
next
  case (Cons img imgs)
  then obtain w h where wh: "width img = JInt w" "height img = JInt h" by auto
  from Cons have IH: "filter_images imgs mw mh =
           Inr (filter (\<lambda>img. \<exists>w h. width img = JInt w \<and> height img = JInt h \<and> mw \<le> w \<and> mh \<le> h) imgs)"
    by simp
  show ?case by (simp add: meets_size_int [OF wh] IH wh)
qed

text \<open>
  Claim C7. For every result set whose images have integer widths and heights, as the
  dataclass declares them, and all \<open>min_width\<close> and \<open>min_height\<close>, \<open>filter_by_size\<close>
  returns a result set with the same \<open>query\<close>, \<open>next_offset\<close> and
  \<open>total_estimated_matches\<close>, whose images are the images of the given one, in order,
  with \<open>width >= min_width\<close> and \<open>height >= min_height\<close>. The given result set is a
  value: nothing can change it.
\<close>

theorem filter_by_size_frame:
  assumes "\<forall>img \<in> set (images r). \<exists>w h. width img = JInt w \<and> height img = JInt h"
  shows "filter_by_size r min_width min_height =
           Inr \<lparr> query = query r,
                 images = filter (\<lambda>img. \<exists>w h. width img = JInt w \<and> height img = JInt h
                                          \<and> min_width \<le> w \<and> min_height \<le> h) (images r),
                 next_offset = next_offset r,
                 total_estimated_matches = total_estimated_matches r \<rparr>"
  by (simp add: filter_by_size_def filter_images_typed [OF assms])

theorem filter_by_size_frame_witness:
  "map width [image_of_size 800 300, image_of_size 400 400, image_of_size 1024 768]
     = [JInt 800, JInt 400, JInt 1024]
   \<and> map height [image_of_size 800 300, image_of_size 400 400, image_of_size 1024 768]
     = [JInt 300, JInt 400, JInt 768]
   \<and> filter_by_size \<lparr> query = ''cats'',
                       images = [image_of_size 800 300, image_of_size 400 400, image_of_size 1024 768],
                       next_offset = JInt 3, total_estimated_matches = JInt 9 \<rparr> 400 400
       = Inr \<lparr> query = ''cats'', images = [image_of_size 400 400, image_of_size 1024 768],
               next_offset = JInt 3, total_estimated_matches = JInt 9 \<rparr>"
proof -
  let ?r = "\<lparr> query = ''cats'',
              images = [image_of_size 800 300, image_of_size 400 400, image_of_size 1024 768],
              next_offset = JInt 3, total_estimated_matches = JInt 9 \<rparr>"
  have h: "\<forall>img \<in> set (images ?r). \<exists>w h. width img = JInt w \<and> height img = JInt h"
    by (simp add: image_of_size_def)
  have f: "filter (\<lambda>img. \<exists>w h. width img = JInt w \<and> height img = JInt h \<and> 400 \<le> w \<and> 400 \<le> h) (images ?r)
             = [image_of_size 400 400, image_of_size 1024 768]"
    by (simp add: image_of_size_def)
  from filter_by_size_frame [OF h, of 400 400] f show ?thesis
    by (simp add: image_of_size_def)
qed




section \<open>The error classifier\<close>


lemma extract_message_none:
  assumes "no_api_message body"
  shows "extract_message body = Inr (JStr ''Unknown Bing API error'')"
proof (cases body)
  case (JObj d)
  show ?thesis
  proof (cases "map_of d ''error''")
    case None
    with JObj show ?thesis by (simp add: extract_message_def dict_has_def)
  next
    case (Some v)
    with assms JObj obtain e where "v = JObj e" "map_of e ''message'' = None"
      by (cases v) (simp_all add: no_api_message_def)
    with JObj Some show ?thesis
      by (simp add: extract_message_def dict_has_def dict_get_def)
  qed
qed (simp_all add: extract_message_def)

lemma handle_bing_error_str:
  "extract_message body = Inr (JStr s) \<Longrightarrow>
   handle_bing_error code body =
     Inr \<lparr> kind = (if code = 401 then BingAuthenticationError
                   else if code = 429 then BingRateLimitError else BingSearchError),
           message = message_prefix code @ s, status_code = code, response = body \<rparr>"
  by (simp add: handle_bing_error_def str_concat_def message_prefix_def)

text \<open>
  Claim C4, as amended. For every status code and every body that supplies no message
  (the body is null or another value that is not an object, it is an object without the
  key \<open>error\<close>, or its error object has no key \<open>message\<close>), the classifier returns an
  error whose message is the prefix for the status code followed by the literal
  \<open>Unknown Bing API error\<close>; status 429 with the body null gives a
  \<open>BingRateLimitError\<close> with the message \<open>Rate limit exceeded: Unknown Bing API error\<close>.
\<close>

theorem fallback_message:
  assumes "no_api_message body"
  shows "(\<exists>err. handle_bing_error code body = Inr err
            \<and> message err = message_prefix code @ ''Unknown Bing API error'')
       \<and> handle_bing_error 429 JNull
           = Inr \<lparr> kind = BingRateLimitError,
                   message = ''Rate limit exceeded: Unknown Bing API error'',
                   status_code = 429, response = JNull \<rparr>"
proof -
  have "handle_bing_error 429 JNull
           = Inr \<lparr> kind = BingRateLimitError,
                   message = ''Rate limit exceeded: Unknown Bing API error'',
                   status_code = 429, response = JNull \<rparr>"
    by (simp add: handle_bing_error_def extract_message_def str_concat_def)
  then show ?thesis
    by (simp add: handle_bing_error_str [OF extract_message_none [OF assms]])
qed

theorem fallback_message_witness:
  "no_api_message JNull
   \<and> handle_bing_error 429 JNull
       = Inr \<lparr> kind = BingRateLimitError, message = ''Rate limit exceeded: Unknown Bing API error'',
               status_code = 429, response = JNull \<rparr>"
proof -
  have ok: "no_api_message JNull" by (simp add: no_api_message_def)
  have e: "handle_bing_error 429 JNull
       = Inr \<lparr> kind = BingRateLimitError, message = ''Rate limit exceeded: Unknown Bing API error'',
               status_code = 429, response = JNull \<rparr>"
    by (simp add: handle_bing_error_def extract_message_def str_concat_def)
  from fallback_message [OF ok, of 429] e ok show ?thesis by blast
qed

theorem fallback_message_counterexample:
  "map_sum id message (handle_bing_error 429 JNull) = Inr ''Rate limit exceeded: Unknown Bing API error''
   \<and> map_sum id message (handle_bing_error 429 JNull) \<noteq> Inr ''Rate limit exceeded: Unknown API error''"
  by (simp add: handle_bing_error_def extract_message_def str_concat_def)




section \<open>The request loop\<close>

lemma trace_do_log [simp]: "trace (do_log r w) = trace w @ [Log r]"
  by (simp add: do_log_def)

lemma trace_do_sleep [simp]: "trace (do_sleep env t w) = trace w @ [Sleep t]"
  by (simp add: do_sleep_def)

lemma trace_do_print [simp]: "trace (do_print errs w) = trace w @ map Print errs"
  by (simp add: do_print_def)

lemma trace_do_get:
  "do_get env url params headers w = (res, w') \<Longrightarrow> trace w' = trace w @ [HttpGet url params headers res]"
  by (auto simp: do_get_def split: prod.splits)

lemma trace_do_time: "do_time env w = (t, w') \<Longrightarrow> trace w' = trace w"
  by (auto simp: do_time_def split: prod.splits)

text \<open>
  The loop from attempt \<open>a\<close> on: what it adds to the trace is, as far as sleeps and
  requests go, the retry schedule for the results \<open>outs\<close> of its attempts.
\<close>

lemma retry_loop_schedule:
  "retry_loop env self params headers a le w = (res, w') \<Longrightarrow> 1 \<le> a \<Longrightarrow>
   \<exists>new outs. trace w' = trace w @ new
     \<and> filter is_net new = backoff_schedule (endpoint self) params headers (nat a) outs
     \<and> (outs = [] \<longleftrightarrow> max_retries self < a)
     \<and> int (length outs) \<le> max (max_retries self + 1 - a) 0
     \<and> list_all is_failure (butlast outs)
     \<and> res = (if outs = []
              then Inl (case le of Some e \<Rightarrow> e | None \<Rightarrow> RequestException ''All retry attempts failed'')
              else last outs)
     \<and> (is_failure res \<and> outs \<noteq> [] \<longrightarrow> int (length outs) = max_retries self + 1 - a)"
proof (induction env self params headers a le w arbitrary: res w' rule: retry_loop.induct)
  case (1 env self params headers a le w)
  note eq = retry_loop.simps [of env self params headers a le w]
  show ?case
  proof (cases "a \<le> max_retries self")
    case False
    with "1.prems" have "res = Inl (case le of Some e \<Rightarrow> e | None \<Rightarrow> RequestException ''All retry attempts failed'')"
      and "trace w' = trace w @ [Log (AllAttemptsFailed (max_retries self))]"
      by (auto simp: eq)
    with False show ?thesis
      by (intro exI [of _ "[Log (AllAttemptsFailed (max_retries self))]"] exI [of _ "[]"]) auto
  next
    case True
    let ?w0 = "do_log (MakingRequest a (max_retries self)) w"
    obtain x w1 where g: "do_get env (endpoint self) params headers ?w0 = (x, w1)"
      by (cases "do_get env (endpoint self) params headers ?w0")
    let ?first = "[Log (MakingRequest a (max_retries self)), HttpGet (endpoint self) params headers x]"
    from trace_do_get [OF g] have t1: "trace w1 = trace w @ ?first"
      by simp
    show ?thesis
    proof (cases "is_failure x")
      case False
      with "1.prems" True g have "res = x" "w' = w1"
        by (auto simp: eq split: sum.splits)
      with t1 True False show ?thesis
        by (intro exI [of _ ?first] exI [of _ "[x]"]) auto
    next
      case fail: True
      then obtain e where e: "x = Inl e" "is_request_exception e" by (cases x) auto
      define w4 where "w4 = (let w2 = do_log (RequestFailed a (max_retries self) e) w1
                  in if a < max_retries self
                     then (let wait_time = 2 ^ nat (a - 1)
                           in do_sleep env (of_int wait_time) (do_log (Retrying wait_time) w2))
                     else w2)"
      from "1.prems" True g e have rec: "retry_loop env self params headers (a + 1) (Some e) w4 = (res, w')"
        by (simp add: eq w4_def)
      have a1: "1 \<le> a + 1" using "1.prems"(2) by simp
      from "1.IH" [OF True g [symmetric] e(1) e(2) rec [unfolded w4_def] a1]
      obtain new outs where IH0: "trace w' = trace w4 @ new
     \<and> filter is_net new = backoff_schedule (endpoint self) params headers (nat (a + 1)) outs
     \<and> (outs = [] \<longleftrightarrow> max_retries self < a + 1)
     \<and> int (length outs) \<le> max (max_retries self + 1 - (a + 1)) 0
     \<and> list_all is_failure (butlast outs)
     \<and> res = (if outs = []
              then Inl (case Some e of Some e \<Rightarrow> e | None \<Rightarrow> RequestException ''All retry attempts failed'')
              else last outs)
     \<and> (is_failure res \<and> outs \<noteq> [] \<longrightarrow> int (length outs) = max_retries self + 1 - (a + 1))"
        unfolding w4_def [symmetric] by blast
      then have IH: "trace w' = trace w4 @ new"
        "filter is_net new = backoff_schedule (endpoint self) params headers (nat (a + 1)) outs"
        "outs = [] \<longleftrightarrow> max_retries self < a + 1"
        "int (length outs) \<le> max (max_retries self + 1 - (a + 1)) 0"
        "list_all is_failure (butlast outs)"
        "res = (if outs = [] then Inl e else last outs)"
        "is_failure res \<and> outs \<noteq> [] \<longrightarrow> int (length outs) = max_retries self + 1 - (a + 1)"
        by simp_all
      show ?thesis
      proof (cases "a < max_retries self")
        case final: False
        with True have am: "a = max_retries self" by simp
        with IH(3) have o: "outs = []" by simp
        have t4: "trace w4 = trace w1 @ [Log (RequestFailed a (max_retries self) e)]"
          using final by (simp add: w4_def)
        show ?thesis
          using IH(1,2,6) o t1 t4 e am "1.prems"(2)
          by (intro exI [of _ "?first @ [Log (RequestFailed a (max_retries self) e)] @ new"] exI [of _ "[x]"])
             auto
      next
        case more: True
        with IH(3) obtain y ys where o: "outs = y # ys" by (cases outs) auto
        have t4: "trace w4 = trace w1 @ [Log (RequestFailed a (max_retries self) e),
                                         Log (Retrying (2 ^ nat (a - 1))), Sleep (2 ^ nat (a - 1))]"
          using more by (simp add: w4_def Let_def)
        have k: "nat (a + 1) = Suc (nat a)" "nat a - 1 = nat (a - 1)" using "1.prems"(2) by auto
        show ?thesis
          using IH o t1 t4 e more "1.prems"(2) k
          by (intro exI [of _ "?first @ [Log (RequestFailed a (max_retries self) e),
                                 Log (Retrying (2 ^ nat (a - 1))), Sleep (2 ^ nat (a - 1))] @ new"]
                    exI [of _ "x # outs"])
             auto
      qed
    qed
  qed
qed

lemma flaky_run:
  "make_request_with_retries flaky_env sample_client [] [] world0 =
     (Inr (JObj []),
      \<lparr> outside = 3,
        trace = [Log (MakingRequest 1 3),
                 HttpGet (endpoint sample_client) [] [] (Inl (RequestException ''timed out'')),
                 Log (RequestFailed 1 3 (RequestException ''timed out'')),
                 Log (Retrying 1), Sleep 1,
                 Log (MakingRequest 2 3),
                 HttpGet (endpoint sample_client) [] [] (Inl (RequestException ''timed out'')),
                 Log (RequestFailed 2 3 (RequestException ''timed out'')),
                 Log (Retrying 2), Sleep 2,
                 Log (MakingRequest 3 3),
                 HttpGet (endpoint sample_client) [] [] (Inr (JObj []))] \<rparr>)"
  by (simp add: make_request_with_retries_def retry_loop.simps do_get_def do_log_def do_sleep_def
                flaky_env_def sample_client_def world0_def)

text \<open>
  Claim C6. What \<open>_make_request_with_retries\<close> adds to the trace is, as far as sleeps
  and requests go, the retry schedule of its attempts: at most \<open>max_retries\<close> attempts
  (none when \<open>max_retries\<close> is not positive), with a sleep of \<open>2 ^ (k - 1)\<close> after the
  \<open>k\<close>-th attempt and before the next. Every attempt but the last one made failed with
  a transport error. The outcome of the call is the outcome of the last attempt made:
  the body of a successful attempt, after which no attempt follows, or the exception
  of the last attempt; and a transport error is the outcome only after \<open>max_retries\<close>
  attempts. With a transport that times out twice and then answers, the call returns
  the answer of the third attempt, having slept 1 and then 2 time units.
\<close>

theorem retry_schedule:
  assumes "make_request_with_retries env self params headers w = (res, w')"
  shows "(\<exists>new outs. trace w' = trace w @ new
           \<and> filter is_net new = backoff_schedule (endpoint self) params headers 1 outs
           \<and> int (length outs) \<le> max (max_retries self) 0
           \<and> list_all is_failure (butlast outs)
           \<and> res = (if outs = [] then Inl (RequestException ''All retry attempts failed'')
                    else last outs)
           \<and> (is_failure res \<longrightarrow> int (length outs) = max (max_retries self) 0))
       \<and> fst (make_request_with_retries flaky_env sample_client [] [] world0) = Inr (JObj [])
       \<and> filter is_net (trace (snd (make_request_with_retries flaky_env sample_client [] [] world0)))
           = [HttpGet (endpoint sample_client) [] [] (Inl (RequestException ''timed out'')), Sleep 1,
              HttpGet (endpoint sample_client) [] [] (Inl (RequestException ''timed out'')), Sleep 2,
              HttpGet (endpoint sample_client) [] [] (Inr (JObj []))]"
proof -
  have example: "fst (make_request_with_retries flaky_env sample_client [] [] world0) = Inr (JObj [])"
    "filter is_net (trace (snd (make_request_with_retries flaky_env sample_client [] [] world0)))
           = [HttpGet (endpoint sample_client) [] [] (Inl (RequestException ''timed out'')), Sleep 1,
              HttpGet (endpoint sample_client) [] [] (Inl (RequestException ''timed out'')), Sleep 2,
              HttpGet (endpoint sample_client) [] [] (Inr (JObj []))]"
    by (simp_all add: flaky_run)
  from assms have "retry_loop env self params headers 1 None w = (res, w')"
    by (simp add: make_request_with_retries_def)
  from retry_loop_schedule [OF this]
  obtain new outs where *: "trace w' = trace w @ new
     \<and> filter is_net new = backoff_schedule (endpoint self) params headers (nat 1) outs
     \<and> (outs = [] \<longleftrightarrow> max_retries self < 1)
     \<and> int (length outs) \<le> max (max_retries self + 1 - 1) 0
     \<and> list_all is_failure (butlast outs)
     \<and> res = (if outs = []
              then Inl (case None of Some e \<Rightarrow> e | None \<Rightarrow> RequestException ''All retry attempts failed'')
              else last outs)
     \<and> (is_failure res \<and> outs \<noteq> [] \<longrightarrow> int (length outs) = max_retries self + 1 - 1)"
    by auto
  have "\<exists>new outs. trace w' = trace w @ new
           \<and> filter is_net new = backoff_schedule (endpoint self) params headers 1 outs
           \<and> int (length outs) \<le> max (max_retries self) 0
           \<and> list_all is_failure (butlast outs)
           \<and> res = (if outs = [] then Inl (RequestException ''All retry attempts failed'')
                    else last outs)
           \<and> (is_failure res \<longrightarrow> int (length outs) = max (max_retries self) 0)"
    using * by (intro exI [of _ new] exI [of _ outs]) auto
  with example show ?thesis by simp
qed

theorem retry_schedule_witness:
  "fst (make_request_with_retries flaky_env sample_client [] [] world0) = Inr (JObj [])
   \<and> filter is_net (trace (snd (make_request_with_retries flaky_env sample_client [] [] world0)))
       = [HttpGet (endpoint sample_client) [] [] (Inl (RequestException ''timed out'')), Sleep 1,
          HttpGet (endpoint sample_client) [] [] (Inl (RequestException ''timed out'')), Sleep 2,
          HttpGet (endpoint sample_client) [] [] (Inr (JObj []))]
   \<and> (\<exists>outs. filter is_net (trace (snd (make_request_with_retries flaky_env sample_client [] [] world0)))
                = backoff_schedule (endpoint sample_client) [] [] 1 outs
              \<and> int (length outs) \<le> 3 \<and> last outs = Inr (JObj []))"
proof -
  let ?run = "make_request_with_retries flaky_env sample_client [] [] world0"
  have run: "?run = (fst ?run, snd ?run)" by simp
  have r: "fst ?run = Inr (JObj [])" by (simp add: flaky_run)
  have n: "filter is_net (trace (snd ?run))
       = [HttpGet (endpoint sample_client) [] [] (Inl (RequestException ''timed out'')), Sleep 1,
          HttpGet (endpoint sample_client) [] [] (Inl (RequestException ''timed out'')), Sleep 2,
          HttpGet (endpoint sample_client) [] [] (Inr (JObj []))]"
    by (simp add: flaky_run)
  from retry_schedule [OF run]
  obtain new outs where s: "trace (snd ?run) = trace world0 @ new"
    "filter is_net new = backoff_schedule (endpoint sample_client) [] [] 1 outs"
    "int (length outs) \<le> max (max_retries sample_client) 0"
    "fst ?run = (if outs = [] then Inl (RequestException ''All retry attempts failed'') else last outs)"
    by blast
  from s(1) have new: "new = trace (snd ?run)" by (simp add: world0_def)
  from s(4) r have l: "last outs = Inr (JObj [])" by (auto split: if_splits)
  from s(3) have len: "int (length outs) \<le> 3" by (simp add: sample_client_def)
  from s(2) new len l have "\<exists>outs. filter is_net (trace (snd ?run))
                = backoff_schedule (endpoint sample_client) [] [] 1 outs
              \<and> int (length outs) \<le> 3 \<and> last outs = Inr (JObj [])"
    by blast
  with r n show ?thesis by blast
qed

section \<open>Pagination\<close>

lemma page_log_append [simp]: "page_log (xs @ ys) = page_log xs @ page_log ys"
  by (induction xs rule: page_log.induct) simp_all

lemma page_log_prints [simp]: "page_log (map Print errs) = []"
  by (induction errs) simp_all

lemma requests_of_append [simp]: "requests_of (xs @ ys) = requests_of xs @ requests_of ys"
  by (induction xs rule: requests_of.induct) simp_all

lemma retry_loop_page_log:
  "retry_loop env self params headers a le w = (res, w') \<Longrightarrow> page_log (trace w') = page_log (trace w)"
proof (induction env self params headers a le w arbitrary: res w' rule: retry_loop.induct)
  case (1 env self params headers a le w)
  note eq = retry_loop.simps [of env self params headers a le w]
  show ?case
  proof (cases "a \<le> max_retries self")
    case False
    with "1.prems" show ?thesis by (auto simp: eq)
  next
    case True
    let ?w0 = "do_log (MakingRequest a (max_retries self)) w"
    obtain x w1 where g: "do_get env (endpoint self) params headers ?w0 = (x, w1)"
      by (cases "do_get env (endpoint self) params headers ?w0")
    from trace_do_get [OF g] have t1: "page_log (trace w1) = page_log (trace w)"
      by simp
    show ?thesis
    proof (cases "is_failure x")
      case False
      with "1.prems" True g have "w' = w1"
        by (auto simp: eq split: sum.splits)
      with t1 show ?thesis by simp
    next
      case fail: True
      then obtain e where e: "x = Inl e" "is_request_exception e" by (cases x) auto
      define w4 where "w4 = (let w2 = do_log (RequestFailed a (max_retries self) e) w1
                  in if a < max_retries self
                     then (let wait_time = 2 ^ nat (a - 1)
                           in do_sleep env (of_int wait_time) (do_log (Retrying wait_time) w2))
                     else w2)"
      from "1.prems" True g e have rec: "retry_loop env self params headers (a + 1) (Some e) w4 = (res, w')"
        by (simp add: eq w4_def)
      have "page_log (trace w') = page_log (trace w4)"
        using "1.IH" [OF True g [symmetric] e(1) e(2) rec [unfolded w4_def]]
        unfolding w4_def [symmetric] .
      moreover have "page_log (trace w4) = page_log (trace w1)"
        by (simp add: w4_def Let_def)
      ultimately show ?thesis using t1 by simp
    qed
  qed
qed

lemma enforce_rate_limit_page_log:
  "enforce_rate_limit env self w = (self', w') \<Longrightarrow> page_log (trace w') = page_log (trace w)"
  by (auto simp: enforce_rate_limit_def Let_def dest!: trace_do_time split: prod.splits if_splits)

text \<open>A call of \<open>search\<close> logs one page record, the number of images it found, and
  only when it returns.\<close>

lemma search_page_log:
  assumes "search env self q n offset market safe_search image_type filter_arg kwargs w = (res, self', w')"
  shows "page_log (trace w') = page_log (trace w) @
           (case res of Inr page \<Rightarrow> [FoundImages (length (images page)) q] | Inl e \<Rightarrow> [])"
  using assms
  by (auto simp: search_def Let_def make_request_with_retries_def
           dest!: enforce_rate_limit_page_log retry_loop_page_log
           split: prod.splits sum.splits)

lemma call_search_page_log:
  assumes "call_search env self q n offset kwargs w = (res, self', w')"
  shows "page_log (trace w') = page_log (trace w) @
           (case res of Inr page \<Rightarrow> [FoundImages (length (images page)) q] | Inl e \<Rightarrow> [])"
  using assms
  by (auto simp: call_search_def dest!: search_page_log split: if_splits)



text \<open>Runs of \<open>search_all\<close> against the stand-ins for the world.\<close>

lemma from_dict_sized:
  "from_dict no_dates (JObj [(''width'', JInt w), (''height'', JInt h)]) = Inr (image_of_size w h)"
  by (simp add: from_dict_def parse_content_size_def parse_created_date_def dict_get_def image_of_size_def)

lemma map_items_replicate:
  "from_dict f item = Inr img \<Longrightarrow> map_items f (replicate n item) = ([], replicate n img)"
  by (induction n) simp_all

lemma map_items_page_items:
  "map_items no_dates page_items = ([], replicate 50 (image_of_size 640 480))"
  unfolding page_items_def by (rule map_items_replicate [OF from_dict_sized])

lemmas run_defs = search_all_def search_all_loop.simps call_search_def search_def
  enforce_rate_limit_def do_time_def make_request_with_retries_def retry_loop.simps
  do_get_def do_log_def do_print_def from_response_def sample_client_def
  world0_def dict_get_def dict_has_def map_items_page_items Let_def slice_to_def






text \<open>
  Claim C9. In the loop of \<open>search_all\<close>, from any state with fewer than
  \<open>max_images\<close> images: when the page that \<open>search\<close> returns has a next offset that
  counts as false, such as 0 or \<open>None\<close>, the loop ends with this page. It returns the
  images collected with those of the page, the log gets the record that no more
  results are available, and the page request just made is the last one; the value of
  the next offset does not enter the outcome otherwise.
\<close>

theorem falsy_next_offset_stops:
  assumes "int (length coll) < m"
    and "call_search env self q (min (m - int (length coll)) cpr) offset kwargs
           (do_log (Searching (min (m - int (length coll)) cpr) offset) w) = (Inr page, self1, w1)"
    and "\<not> truthy (next_offset page)"
  shows "search_all_loop env q m kwargs cpr coll offset prev self w
           = (Inr (coll @ images page, Some page), self1,
              do_log (NoMoreResults (length coll + length (images page))) w1)
       \<and> page_requests (trace (do_log (NoMoreResults (length coll + length (images page))) w1))
           = page_requests (trace w) @ [(min (m - int (length coll)) cpr, offset)]
       \<and> \<not> truthy (JInt 0) \<and> \<not> truthy JNull"
proof -
  from assms have "search_all_loop env q m kwargs cpr coll offset prev self w
           = (Inr (coll @ images page, Some page), self1,
              do_log (NoMoreResults (length coll + length (images page))) w1)"
    by (simp add: search_all_loop.simps [of env q m kwargs cpr coll offset prev self w])
  moreover from call_search_page_log [OF assms(2)]
  have "page_requests (trace (do_log (NoMoreResults (length coll + length (images page))) w1))
           = page_requests (trace w) @ [(min (m - int (length coll)) cpr, offset)]"
    by (simp add: page_requests_def)
  ultimately show ?thesis by simp
qed

theorem falsy_next_offset_stops_witness:
  "fst (search_all_loop last_page_env ''cats'' 120 [] 120 [] (JInt 0) None sample_client world0)
     = Inr (replicate 50 (image_of_size 640 480),
            Some \<lparr> query = ''cats'', images = replicate 50 (image_of_size 640 480),
                   next_offset = JInt 0, total_estimated_matches = JInt 1000 \<rparr>)
   \<and> page_requests (trace (snd (snd (search_all_loop last_page_env ''cats'' 120 [] 120 []
                                        (JInt 0) None sample_client world0))))
       = [(120, JInt 0)]"
proof -
  let ?page = "\<lparr> query = ''cats'', images = replicate 50 (image_of_size 640 480),
                  next_offset = JInt 0, total_estimated_matches = JInt 1000 \<rparr>"
  let ?call = "call_search last_page_env sample_client ''cats'' (min (120 - int (length ([] :: unit ImageMetadata list))) 120)
                 (JInt 0) [] (do_log (Searching (min (120 - int (length ([] :: unit ImageMetadata list))) 120) (JInt 0)) world0)"
  have c: "?call = (Inr ?page, sample_client, snd (snd ?call))"
    by (simp add: run_defs last_page_env_def)
  have l: "int (length ([] :: unit ImageMetadata list)) < 120" by simp
  have f: "\<not> truthy (next_offset ?page)" by simp
  from falsy_next_offset_stops [OF l c f, of None]
  have loop: "search_all_loop last_page_env ''cats'' 120 [] 120 [] (JInt 0) None sample_client world0
           = (Inr ([] @ images ?page, Some ?page), sample_client,
              do_log (NoMoreResults (length ([] :: unit ImageMetadata list) + length (images ?page))) (snd (snd ?call)))"
    and reqs: "page_requests (trace (do_log (NoMoreResults (length ([] :: unit ImageMetadata list) + length (images ?page))) (snd (snd ?call))))
           = page_requests (trace world0) @ [(min (120 - int (length ([] :: unit ImageMetadata list))) 120, JInt 0)]"
    by blast+
  from loop reqs show ?thesis by (simp add: world0_def page_requests_def)
qed

text \<open>
  Claim C10. For every \<open>max_images\<close> of 0 or less, \<open>search_all\<close> raises
  \<open>UnboundLocalError\<close>: the loop is not entered, so nothing is requested, logged or
  changed, and the variable \<open>result\<close> that the combined result reads was never
  assigned.
\<close>

theorem search_all_nonpositive:
  assumes "m \<le> 0"
  shows "search_all env self q m kwargs w = (Inl UnboundLocalError, self, w)"
  using assms by (simp add: search_all_def search_all_loop.simps)

theorem search_all_nonpositive_witness:
  "search_all paged_env sample_client ''cats'' 0 [] world0 = (Inl UnboundLocalError, sample_client, world0)
   \<and> search_all paged_env sample_client ''cats'' (- 5) [] world0 = (Inl UnboundLocalError, sample_client, world0)"
proof -
  have z: "(0::int) \<le> 0" and n: "(- 5::int) \<le> 0" by simp_all
  from search_all_nonpositive [OF z] search_all_nonpositive [OF n] show ?thesis by blast
qed

end
